theory Spec2Isabelle
  imports Complex_Main "HOL-Library.AList"
begin

section \<open>Circuit breaker (src/lib/resilience/circuit-breaker.ts)\<close>

text \<open>
  The breaker is a class with five mutable fields and a configuration. Its methods
  become functions from a breaker to the updated breaker. \<^verbatim>\<open>Date.now()\<close> is a
  reading of the clock of the outside world; the world is a value of an arbitrary type
  \<open>'w\<close> with a reader \<open>clock\<close>, and only the wrapped operation changes it. The
  two hooks run synchronously once the operation has settled, so every
  \<^verbatim>\<open>Date.now()\<close> inside one hook is the reading \<open>now\<close> of that instant.
  Counters are natural numbers (they start at 0 and are only incremented or zeroed);
  times and configuration values are integers (milliseconds).
\<close>

datatype CircuitState = CLOSED | OPEN | HALF_OPEN

record CircuitBreakerConfig =
  failureThreshold :: int
  timeoutWindow :: int
  recoveryTimeout :: int
  monitorWindow :: int

record CircuitBreaker =
  name :: string
  config :: CircuitBreakerConfig
  state :: CircuitState
  failureCount :: nat
  lastFailureTime :: int
  nextAttemptTime :: int
  successCount :: nat

text \<open>What \<^verbatim>\<open>execute\<close> throws: its own error with the message
  \<^verbatim>\<open>Circuit breaker <name> is OPEN\<close>, or the error of the operation, rethrown.\<close>

datatype 'e thrown = BreakerOpen string | Rethrown 'e

definition initial :: "string \<Rightarrow> CircuitBreakerConfig \<Rightarrow> CircuitBreaker" where
  "initial n c = \<lparr>name = n, config = c, state = CLOSED, failureCount = 0,
     lastFailureTime = 0, nextAttemptTime = 0, successCount = 0\<rparr>"

definition open_breaker :: "int \<Rightarrow> CircuitBreaker \<Rightarrow> CircuitBreaker" where
  "open_breaker now b =
     b\<lparr>state := OPEN, nextAttemptTime := now + recoveryTimeout (config b)\<rparr>"

definition reset :: "CircuitBreaker \<Rightarrow> CircuitBreaker" where
  "reset b = b\<lparr>state := CLOSED, failureCount := 0, successCount := 0,
     lastFailureTime := 0, nextAttemptTime := 0\<rparr>"

definition onSuccess :: "int \<Rightarrow> CircuitBreaker \<Rightarrow> CircuitBreaker" where
  "onSuccess now b =
     (if state b = HALF_OPEN then
        (let b1 = b\<lparr>successCount := successCount b + 1\<rparr>
         in if successCount b1 \<ge> 5 then reset b1 else b1)
      else if state b = CLOSED then
        (if now - lastFailureTime b > timeoutWindow (config b)
         then b\<lparr>failureCount := 0\<rparr> else b)
      else b)"

definition onFailure :: "int \<Rightarrow> CircuitBreaker \<Rightarrow> CircuitBreaker" where
  "onFailure now b =
     (let b1 = b\<lparr>failureCount := failureCount b + 1, lastFailureTime := now\<rparr>
      in if state b1 = HALF_OPEN then open_breaker now b1
         else if int (failureCount b1) \<ge> failureThreshold (config b1) then open_breaker now b1
         else b1)"

text \<open>
  \<^verbatim>\<open>execute(operation)\<close>. The operation is an effectful computation on the world:
  it returns its value (\<open>Inr\<close>) or the error it throws (\<open>Inl\<close>) and the world it
  leaves. It is given the breaker as it stands at the moment of the call, which is what
  a closure could read through \<^verbatim>\<open>getStatus()\<close>. An operation that is not invoked
  leaves the world as it was.
\<close>

definition execute ::
  "('w \<Rightarrow> int) \<Rightarrow> (CircuitBreaker \<Rightarrow> 'w \<Rightarrow> ('e + 'a) \<times> 'w) \<Rightarrow> CircuitBreaker \<times> 'w
     \<Rightarrow> ('e thrown + 'a) \<times> CircuitBreaker \<times> 'w" where
  "execute clock operation bw =
     (let (b, w) = bw in
      if state b = OPEN \<and> clock w < nextAttemptTime b then
        (Inl (BreakerOpen (''Circuit breaker '' @ CircuitBreaker.name b @ '' is OPEN'')), b, w)
      else
        (let b1 = (if state b = OPEN then b\<lparr>state := HALF_OPEN, successCount := 0\<rparr> else b)
         in case operation b1 w of
              (Inr result, w') \<Rightarrow> (Inr result, onSuccess (clock w') b1, w')
            | (Inl error, w') \<Rightarrow> (Inl (Rethrown error), onFailure (clock w') b1, w')))"

text \<open>A sequence of calls on one breaker, each with its own operation, in order.\<close>

fun executeAll ::
  "('w \<Rightarrow> int) \<Rightarrow> (CircuitBreaker \<Rightarrow> 'w \<Rightarrow> ('e + 'a) \<times> 'w) list \<Rightarrow> CircuitBreaker \<times> 'w
     \<Rightarrow> CircuitBreaker \<times> 'w" where
  "executeAll clock [] bw = bw"
| "executeAll clock (operation # rest) bw =
     executeAll clock rest (snd (execute clock operation bw))"

text \<open>An operation that resolves whatever the breaker and the world are.\<close>

definition succeeds :: "(CircuitBreaker \<Rightarrow> 'w \<Rightarrow> ('e + 'a) \<times> 'w) \<Rightarrow> bool" where
  "succeeds operation = (\<forall>b w. \<exists>v w'. operation b w = (Inr v, w'))"

text \<open>The pre-configured breaker for payments, and two operations on a world that is
  just the time: one rejects after 10 ms, one resolves after 10 ms.\<close>

definition paymentCircuitBreaker :: CircuitBreaker where
  "paymentCircuitBreaker = initial ''payment''
     \<lparr>failureThreshold = 3, timeoutWindow = 30000, recoveryTimeout = 60000,
      monitorWindow = 300000\<rparr>"

definition rejecting :: "CircuitBreaker \<Rightarrow> int \<Rightarrow> (string + unit) \<times> int" where
  "rejecting b w = (Inl ''timeout'', w + 10)"

definition resolving :: "CircuitBreaker \<Rightarrow> int \<Rightarrow> (string + unit) \<times> int" where
  "resolving b w = (Inr (), w + 10)"

section \<open>Content cache (first part of src/lib/caching/content-cache.ts)\<close>

text \<open>
  The cache is a JavaScript \<^verbatim>\<open>Map\<close>, which keeps its keys in insertion order and
  replaces the value of a key that is already there in place: an association list with
  \<^const>\<open>AList.update\<close> and \<^const>\<open>AList.delete\<close>. The methods take the reading of
  \<^verbatim>\<open>Date.now()\<close> as their first argument and return the updated cache.
\<close>

record 'v CacheEntry =
  key :: string
  val :: 'v
  expiresAt :: int
  createdAt :: int
  accessCount :: nat
  lastAccessed :: int

record 'v ContentCache =
  cache :: "(string \<times> 'v CacheEntry) list"
  maxSize :: nat
  defaultTTL :: int
  hits :: nat
  misses :: nat

definition get :: "int \<Rightarrow> string \<Rightarrow> 'v ContentCache \<Rightarrow> 'v option \<times> 'v ContentCache" where
  "get now k c =
     (case map_of (cache c) k of
        None \<Rightarrow> (None, c\<lparr>misses := misses c + 1\<rparr>)
      | Some entry \<Rightarrow>
          if now > expiresAt entry
          then (None, c\<lparr>cache := AList.delete k (cache c), misses := misses c + 1\<rparr>)
          else (Some (val entry),
                c\<lparr>cache := AList.update k
                              (entry\<lparr>accessCount := accessCount entry + 1, lastAccessed := now\<rparr>)
                              (cache c),
                  hits := hits c + 1\<rparr>))"

text \<open>\<^verbatim>\<open>evictLRU\<close>: the loop keeps the key with the smallest \<open>lastAccessed\<close> strictly
  below the current time; \<^verbatim>\<open>if (lruKey)\<close> skips \<^verbatim>\<open>null\<close> and the empty string.\<close>

definition evictLRU :: "int \<Rightarrow> 'v ContentCache \<Rightarrow> 'v ContentCache" where
  "evictLRU now c =
     (let (lruKey, lruTime) =
            foldl (\<lambda>(lruKey, lruTime) (k, entry).
                     if lastAccessed entry < lruTime then (Some k, lastAccessed entry)
                     else (lruKey, lruTime))
                  (None, now) (cache c)
      in case lruKey of
           None \<Rightarrow> c
         | Some k \<Rightarrow> if k = [] then c else c\<lparr>cache := AList.delete k (cache c)\<rparr>)"

text \<open>\<^verbatim>\<open>set(key, value, ttl?)\<close>; \<^verbatim>\<open>ttl || this.defaultTTL\<close> takes the default for a
  missing or zero \<open>ttl\<close>.\<close>

definition set_entry ::
  "int \<Rightarrow> string \<Rightarrow> 'v \<Rightarrow> int option \<Rightarrow> 'v ContentCache \<Rightarrow> 'v ContentCache" where
  "set_entry now k v ttl c =
     (let expirationTime = (case ttl of None \<Rightarrow> defaultTTL c
                             | Some t \<Rightarrow> if t = 0 then defaultTTL c else t);
          c1 = (if length (cache c) \<ge> maxSize c then evictLRU now c else c);
          entry = \<lparr>key = k, val = v, expiresAt = now + expirationTime, createdAt = now,
                   accessCount = 0, lastAccessed = now\<rparr>
      in c1\<lparr>cache := AList.update k entry (cache c1)\<rparr>)"

section \<open>AI provider manager (second part of src/lib/caching/content-cache.ts)\<close>

subsection \<open>Data\<close>

text \<open>
  JavaScript numbers that hold counts (tokens, array lengths) are natural numbers; prices,
  rates, latencies and temperatures are rationals, and arithmetic on them is exact (the
  rounding of IEEE doubles is not modelled); \<^verbatim>\<open>Math.round\<close> is \<^const>\<open>round\<close>
  (half up) and gives an integer number of cents. An optional field is an \<open>option\<close>.
\<close>

datatype ProviderType = openai | anthropic | google | azure | cohere
datatype ProviderStatus = active | degraded | offline
datatype ModelType = "text" | image | embedding | audio
datatype CostTier = low | medium | high | premium
datatype RequestType = text_generation | image_generation | embedding | analysis
datatype Priority = low | normal | high | urgent
datatype StrategyType = round_robin | least_cost | best_performance | adaptive

record AIModel =
  id :: string
  name :: string
  type :: ModelType
  maxTokens :: nat
  contextWindow :: nat
  capabilities :: "string list"
  costTier :: CostTier

record Pricing =
  inputTokens :: rat
  outputTokens :: rat

record Limits =
  requestsPerMinute :: nat
  tokensPerMinute :: nat
  dailySpend :: rat

record Performance =
  averageLatency :: rat
  successRate :: rat
  lastFailure :: "int option"

text \<open>The field \<^verbatim>\<open>client\<close> (the vendor's SDK object) is not data of the model: calls
  through it are the function \<open>client\<close> of the platform below.\<close>

record AIProvider =
  id :: string
  name :: string
  type :: ProviderType
  models :: "AIModel list"
  pricing :: Pricing
  limits :: Limits
  performance :: Performance
  status :: ProviderStatus

record Requirements =
  minQuality :: "rat option"
  maxLatency :: "rat option"
  requiresReasoning :: "bool option"

record AIRequest =
  type :: RequestType
  prompt :: string
  maxTokens :: "nat option"
  temperature :: "rat option"
  model :: "string option"
  priority :: "Priority option"
  budget :: "rat option"
  requirements :: "Requirements option"

record Usage =
  inputTokens :: nat
  outputTokens :: nat
  totalTokens :: nat
  cost :: int

record Metrics =
  latency :: rat
  quality :: "nat option"
  satisfaction :: "rat option"

record AIResponse =
  content :: string
  model :: string
  provider :: string
  usage :: Usage
  metrics :: Metrics

record LoadBalancingStrategy =
  type :: StrategyType
  weights :: "(string \<times> rat) list option"

text \<open>One element of \<^verbatim>\<open>requestHistory\<close>.\<close>

record Outcome =
  timestamp :: int
  providerId :: string
  success :: bool
  cost :: int
  latency :: rat

text \<open>
  The manager with the module's global \<^verbatim>\<open>apiCache\<close>, which \<^verbatim>\<open>processRequest\<close>
  reads and writes. \<open>providers\<close> is a \<^verbatim>\<open>Map\<close> in registration order.
  \<open>invoked\<close> is not a field of the source: it lists, in order, the id of the provider of
  every call of \<^verbatim>\<open>executeRequest\<close>, for the properties that count those calls.
\<close>

record AIProviderManager =
  providers :: "(string \<times> AIProvider) list"
  requestHistory :: "Outcome list"
  loadBalancer :: LoadBalancingStrategy
  failoverEnabled :: bool
  apiCache :: "AIResponse ContentCache"
  invoked :: "string list"

text \<open>What the vendor's SDK resolves with: the text, and the usage object if any, whose
  fields are named differently by the two vendors.\<close>

record VendorUsage =
  prompt_tokens :: "nat option"
  completion_tokens :: "nat option"
  total_tokens :: "nat option"
  input_tokens :: "nat option"
  output_tokens :: "nat option"

record VendorReply =
  result :: string
  usage :: "VendorUsage option"

text \<open>
  What lies outside the manager. The world \<open>'w\<close> is changed by the calls to a vendor
  only. \<open>client p m r w\<close> is the call of the SDK of provider \<open>p\<close> for model \<open>m\<close> and
  request \<open>r\<close>: it resolves (\<open>Inr\<close>) or rejects with a message (\<open>Inl\<close>).
  \<open>encode\<close> stands for \<^verbatim>\<open>Buffer.from(JSON.stringify({...})).toString('base64')\<close> on the
  four values \<^verbatim>\<open>getCacheKey\<close> puts in the object. \<open>estimateQuality\<close> is the text
  heuristic of that name, which no property here depends on; it is kept abstract, so
  that every theorem holds for the function of the source too.
\<close>

record 'w Platform =
  dateNow :: "'w \<Rightarrow> int"
  performanceNow :: "'w \<Rightarrow> rat"
  client :: "AIProvider \<Rightarrow> string \<Rightarrow> AIRequest \<Rightarrow> 'w \<Rightarrow> (string + VendorReply) \<times> 'w"
  encode :: "RequestType \<Rightarrow> string \<Rightarrow> nat option \<Rightarrow> rat option \<Rightarrow> string"
  estimateQuality :: "string \<Rightarrow> AIRequest \<Rightarrow> nat"

text \<open>The errors \<^verbatim>\<open>processRequest\<close> can reject with:
  \<^verbatim>\<open>new Error('No available AI providers')\<close>, \<^verbatim>\<open>new Error('All providers failed')\<close>
  (the constructor gets the message only), the rejection of a vendor's SDK, and the
  \<^verbatim>\<open>TypeError\<close> of a property read on \<^verbatim>\<open>undefined\<close>.\<close>

datatype Error = NoAvailableProvider | AllProvidersFailed | ClientError string | TypeError

subsection \<open>JavaScript idioms\<close>

text \<open>\<^verbatim>\<open>x && ...\<close> and \<^verbatim>\<open>x || d\<close> on an optional number: \<^verbatim>\<open>undefined\<close> and
  \<open>0\<close> are falsy.\<close>

definition truthy :: "'a::zero option \<Rightarrow> bool" where
  "truthy x = (case x of None \<Rightarrow> False | Some v \<Rightarrow> v \<noteq> 0)"

definition orDefault :: "'a::zero option \<Rightarrow> 'a \<Rightarrow> 'a" where
  "orDefault x d = (case x of None \<Rightarrow> d | Some v \<Rightarrow> if v = 0 then d else v)"

text \<open>\<^verbatim>\<open>Array.prototype.reduce\<close> without an initial value: the first element starts the
  accumulator; on an empty array it throws, which is \<open>None\<close> here.\<close>

definition reduce :: "('a \<Rightarrow> 'a \<Rightarrow> 'a) \<Rightarrow> 'a list \<Rightarrow> 'a option" where
  "reduce f xs = (case xs of [] \<Rightarrow> None | x # rest \<Rightarrow> Some (foldl f x rest))"

text \<open>
  Division by zero does not throw in JavaScript: it yields an infinity or \<^verbatim>\<open>NaN\<close>,
  which then flows through the sums, products and comparisons of the selection scores.
\<close>

datatype jsnumber = Finite rat | PosInfinity | NegInfinity | NaN

definition js_div :: "rat \<Rightarrow> rat \<Rightarrow> jsnumber" where
  "js_div a b =
     (if b \<noteq> 0 then Finite (a / b)
      else if a > 0 then PosInfinity else if a < 0 then NegInfinity else NaN)"

fun js_times :: "jsnumber \<Rightarrow> jsnumber \<Rightarrow> jsnumber" where
  "js_times NaN y = NaN"
| "js_times x NaN = NaN"
| "js_times (Finite a) (Finite b) = Finite (a * b)"
| "js_times (Finite a) PosInfinity =
     (if a > 0 then PosInfinity else if a < 0 then NegInfinity else NaN)"
| "js_times (Finite a) NegInfinity =
     (if a > 0 then NegInfinity else if a < 0 then PosInfinity else NaN)"
| "js_times PosInfinity (Finite b) =
     (if b > 0 then PosInfinity else if b < 0 then NegInfinity else NaN)"
| "js_times NegInfinity (Finite b) =
     (if b > 0 then NegInfinity else if b < 0 then PosInfinity else NaN)"
| "js_times PosInfinity PosInfinity = PosInfinity"
| "js_times NegInfinity NegInfinity = PosInfinity"
| "js_times PosInfinity NegInfinity = NegInfinity"
| "js_times NegInfinity PosInfinity = NegInfinity"

fun js_plus :: "jsnumber \<Rightarrow> jsnumber \<Rightarrow> jsnumber" where
  "js_plus NaN y = NaN"
| "js_plus x NaN = NaN"
| "js_plus (Finite a) (Finite b) = Finite (a + b)"
| "js_plus PosInfinity NegInfinity = NaN"
| "js_plus NegInfinity PosInfinity = NaN"
| "js_plus PosInfinity y = PosInfinity"
| "js_plus NegInfinity y = NegInfinity"
| "js_plus (Finite a) y = y"

fun js_gt :: "jsnumber \<Rightarrow> jsnumber \<Rightarrow> bool" where
  "js_gt NaN y = False"
| "js_gt x NaN = False"
| "js_gt (Finite a) (Finite b) = (a > b)"
| "js_gt PosInfinity PosInfinity = False"
| "js_gt PosInfinity y = True"
| "js_gt x PosInfinity = False"
| "js_gt NegInfinity y = False"
| "js_gt (Finite a) NegInfinity = True"

subsection \<open>Selection\<close>

definition registerProvider :: "AIProvider \<Rightarrow> AIProviderManager \<Rightarrow> AIProviderManager" where
  "registerProvider p m = m\<lparr>providers := AList.update (AIProvider.id p) p (providers m)\<rparr>"

definition estimateTokens :: "string \<Rightarrow> nat" where
  "estimateTokens txt = nat \<lceil>(of_nat (length txt) :: rat) / 4\<rceil>"

definition calculateCost :: "AIProvider \<Rightarrow> nat \<Rightarrow> nat \<Rightarrow> int" where
  "calculateCost p inTokens outTokens =
     (let inputCost = (of_nat inTokens / 1000) * Pricing.inputTokens (pricing p);
          outputCost = (of_nat outTokens / 1000) * Pricing.outputTokens (pricing p)
      in round ((inputCost + outputCost) * 100))"

text \<open>The predicate that \<^verbatim>\<open>hasCapableModel\<close> and \<^verbatim>\<open>selectModel\<close> both apply to a
  model.\<close>

definition capable :: "AIRequest \<Rightarrow> AIModel \<Rightarrow> bool" where
  "capable r mdl =
     (if AIRequest.type r = text_generation \<and> AIModel.type mdl \<noteq> text then False
      else if (case AIRequest.maxTokens r of None \<Rightarrow> False
               | Some n \<Rightarrow> n \<noteq> 0 \<and> AIModel.maxTokens mdl < n) then False
      else if (case requirements r of None \<Rightarrow> False
               | Some q \<Rightarrow> requiresReasoning q = Some True)
              \<and> ''reasoning'' \<notin> set (capabilities mdl) then False
      else True)"

definition hasCapableModel :: "AIProvider \<Rightarrow> AIRequest \<Rightarrow> bool" where
  "hasCapableModel p r = list_ex (capable r) (models p)"

definition selectByCost :: "AIProvider list \<Rightarrow> AIRequest \<Rightarrow> AIProvider option" where
  "selectByCost ps r =
     (let estimatedTokens = estimateTokens (prompt r)
      in reduce (\<lambda>cheapest current.
           let cheapestCost = calculateCost cheapest estimatedTokens
                                (orDefault (AIRequest.maxTokens r) 1000);
               currentCost = calculateCost current estimatedTokens
                                (orDefault (AIRequest.maxTokens r) 1000)
           in if currentCost < cheapestCost then current else cheapest) ps)"

definition performanceScore :: "AIProvider \<Rightarrow> jsnumber" where
  "performanceScore p =
     js_times (Finite (successRate (performance p)))
              (js_div 1000 (averageLatency (performance p)))"

definition selectByPerformance :: "AIProvider list \<Rightarrow> AIProvider option" where
  "selectByPerformance ps =
     reduce (\<lambda>best current.
        if js_gt (performanceScore current) (performanceScore best) then current else best) ps"

text \<open>The body of the \<^verbatim>\<open>map\<close> callback of \<^verbatim>\<open>selectAdaptively\<close>.\<close>

definition adaptiveScore :: "AIProvider \<Rightarrow> AIRequest \<Rightarrow> jsnumber" where
  "adaptiveScore p r =
     (let s1 = Finite (successRate (performance p) * 40);
          s2 = js_plus s1 (js_times (js_div 1000 (averageLatency (performance p))) (Finite 30));
          estimatedCost = calculateCost p (estimateTokens (prompt r))
                            (orDefault (AIRequest.maxTokens r) 1000);
          s3 = js_plus s2 (Finite ((100 - of_int estimatedCost) * 20 / 100))
      in if priority r = Some urgent
           then js_plus s3 (Finite (successRate (performance p) * 10))
         else if priority r = Some Priority.low
           then js_plus s3 (Finite ((100 - of_int estimatedCost) * 10 / 100))
         else s3)"

definition selectAdaptively :: "AIProvider list \<Rightarrow> AIRequest \<Rightarrow> AIProvider option" where
  "selectAdaptively ps r =
     (let scores = map (\<lambda>p. (p, adaptiveScore p r)) ps
      in map_option fst
           (reduce (\<lambda>best current. if js_gt (snd current) (snd best) then current else best)
              scores))"

text \<open>\<^verbatim>\<open>selectRoundRobin\<close>: with no active provider the index is \<^verbatim>\<open>NaN\<close> and the
  array read gives \<^verbatim>\<open>undefined\<close>, which the caller treats as no provider.\<close>

definition selectRoundRobin :: "AIProviderManager \<Rightarrow> AIProvider list \<Rightarrow> AIProvider option" where
  "selectRoundRobin m ps =
     (let activeProviders = filter (\<lambda>p. status p = active) ps
      in if activeProviders = [] then None
         else Some (activeProviders ! (length (requestHistory m) mod length activeProviders)))"

definition availableProviders :: "AIProviderManager \<Rightarrow> AIRequest \<Rightarrow> AIProvider list" where
  "availableProviders m r =
     filter (\<lambda>p. hasCapableModel p r)
       (filter (\<lambda>p. status p \<noteq> offline) (map snd (providers m)))"

definition selectProvider :: "AIProviderManager \<Rightarrow> AIRequest \<Rightarrow> AIProvider option" where
  "selectProvider m r =
     (let ps = availableProviders m r
      in if length ps = 0 then None
         else case LoadBalancingStrategy.type (loadBalancer m) of
                least_cost \<Rightarrow> selectByCost ps r
              | best_performance \<Rightarrow> selectByPerformance ps
              | adaptive \<Rightarrow> selectAdaptively ps r
              | round_robin \<Rightarrow> selectRoundRobin m ps)"

text \<open>\<^verbatim>\<open>selectModel\<close>; \<open>None\<close> is \<^verbatim>\<open>undefined\<close>, the fallback \<^verbatim>\<open>provider.models[0]\<close>
  of a provider without models.\<close>

definition selectModel :: "AIProvider \<Rightarrow> AIRequest \<Rightarrow> AIModel option" where
  "selectModel p r =
     (let suitableModels = filter (capable r) (models p)
      in if length suitableModels = 0 then
           (case models p of [] \<Rightarrow> None | m0 # _ \<Rightarrow> Some m0)
         else if priority r = Some urgent
                 \<or> (case requirements r of None \<Rightarrow> False | Some q \<Rightarrow> truthy (minQuality q))
           then (case filter (\<lambda>m. costTier m = premium) suitableModels of
                   [] \<Rightarrow> Some (hd suitableModels) | m1 # _ \<Rightarrow> Some m1)
         else if priority r = Some Priority.low \<or> truthy (budget r)
           then (case filter (\<lambda>m. costTier m = CostTier.low) suitableModels of
                   [] \<Rightarrow> Some (hd suitableModels) | m1 # _ \<Rightarrow> Some m1)
         else Some (hd suitableModels))"

subsection \<open>Executing a request, recording the outcome\<close>

text \<open>
  The reads \<^verbatim>\<open>usage.prompt_tokens || usage.input_tokens || 0\<close> and the like.
  \<^verbatim>\<open>usage.input_tokens + usage.output_tokens\<close> is \<^verbatim>\<open>NaN\<close>, hence falsy, when either
  field is missing.
\<close>

definition usageInput :: "VendorUsage \<Rightarrow> nat" where
  "usageInput u = orDefault (prompt_tokens u) (orDefault (input_tokens u) 0)"

definition usageOutput :: "VendorUsage \<Rightarrow> nat" where
  "usageOutput u = orDefault (completion_tokens u) (orDefault (output_tokens u) 0)"

definition usageTotal :: "VendorUsage \<Rightarrow> nat" where
  "usageTotal u =
     orDefault (total_tokens u)
       (case (input_tokens u, output_tokens u) of
          (Some a, Some b) \<Rightarrow> a + b
        | _ \<Rightarrow> 0)"

definition defaultUsage :: "ProviderType \<Rightarrow> VendorUsage" where
  "defaultUsage t =
     (if t = openai
      then \<lparr>prompt_tokens = Some 0, completion_tokens = Some 0, total_tokens = Some 0,
            input_tokens = None, output_tokens = None\<rparr>
      else \<lparr>prompt_tokens = None, completion_tokens = None, total_tokens = None,
            input_tokens = Some 0, output_tokens = Some 0\<rparr>)"

text \<open>
  \<^verbatim>\<open>executeRequest\<close>. Only the types \<^verbatim>\<open>openai\<close> and \<^verbatim>\<open>anthropic\<close> have a branch;
  for the others \<^verbatim>\<open>usage\<close> stays \<^verbatim>\<open>undefined\<close> and reading it throws. The model's
  id is read off \<^verbatim>\<open>selectModel\<close> while the arguments of the SDK call are built, so a
  provider without models throws before its backend is contacted. Every error is
  rethrown to the caller.
\<close>

definition executeRequest ::
  "'w Platform \<Rightarrow> AIProvider \<Rightarrow> AIRequest \<Rightarrow> AIProviderManager \<times> 'w
     \<Rightarrow> (Error + AIResponse) \<times> AIProviderManager \<times> 'w" where
  "executeRequest P p r mw =
     (let (m, w) = mw;
          m1 = m\<lparr>invoked := invoked m @ [AIProvider.id p]\<rparr>;
          startTime = performanceNow P w
      in if AIProvider.type p = openai \<or> AIProvider.type p = anthropic then
           (case selectModel p r of
              None \<Rightarrow> (Inl TypeError, m1, w)
            | Some mdl \<Rightarrow>
               (case client P p (AIModel.id mdl) r w of
                  (Inl msg, w') \<Rightarrow> (Inl (ClientError msg), m1, w')
                | (Inr reply, w') \<Rightarrow>
                    (let u = (case VendorReply.usage reply of
                                None \<Rightarrow> defaultUsage (AIProvider.type p) | Some u' \<Rightarrow> u');
                         latency = performanceNow P w' - startTime;
                         cost = calculateCost p (usageInput u) (usageOutput u)
                     in (Inr \<lparr>content = result reply,
                               model = AIModel.id mdl,
                               provider = AIProvider.id p,
                               AIResponse.usage =
                                 \<lparr>inputTokens = usageInput u,
                                  outputTokens = usageOutput u,
                                  totalTokens = usageTotal u,
                                  Usage.cost = cost\<rparr>,
                               metrics = \<lparr>Metrics.latency = latency,
                                           quality = Some (estimateQuality P (result reply) r),
                                           satisfaction = None\<rparr>\<rparr>,
                         m1, w'))))
         else (Inl TypeError, m1, w))"

text \<open>\<^verbatim>\<open>xs.slice(-n)\<close>, the last \<open>n\<close> elements (all of them when there are fewer).\<close>

definition sliceLast :: "nat \<Rightarrow> 'a list \<Rightarrow> 'a list" where
  "sliceLast n xs = drop (length xs - n) xs"

text \<open>The status that \<^verbatim>\<open>updateProviderMetrics\<close> derives from a success rate, with the
  source's order of the two tests.\<close>

definition statusFor :: "rat \<Rightarrow> ProviderStatus" where
  "statusFor rate =
     (if rate < 8 / 10 then degraded
      else if rate < 5 / 10 then offline
      else active)"

definition updateProviderMetrics ::
  "int \<Rightarrow> string \<Rightarrow> bool \<Rightarrow> int \<Rightarrow> rat \<Rightarrow> AIProviderManager \<Rightarrow> AIProviderManager" where
  "updateProviderMetrics now pid ok c l m =
     (case map_of (providers m) pid of
        None \<Rightarrow> m
      | Some p \<Rightarrow>
         (let pushed = requestHistory m
                 @ [\<lparr>timestamp = now, providerId = pid, success = ok, cost = c, latency = l\<rparr>];
              history = (if length pushed > 1000 then sliceLast 1000 pushed else pushed);
              recentRequests = sliceLast 100 (filter (\<lambda>r. providerId r = pid) history);
              perf = (if length recentRequests > 0 then
                        (performance p)\<lparr>
                          successRate := of_nat (length (filter success recentRequests))
                                          / of_nat (length recentRequests),
                          averageLatency := foldl (\<lambda>sum r. sum + Outcome.latency r) 0 recentRequests
                                          / of_nat (length recentRequests),
                          lastFailure := (if \<not> ok then Some now else lastFailure (performance p))\<rparr>
                      else performance p);
              p1 = p\<lparr>performance := perf, status := statusFor (successRate perf)\<rparr>
          in m\<lparr>requestHistory := history, providers := AList.update pid p1 (providers m)\<rparr>))"

subsection \<open>Failover and the facade\<close>

text \<open>The loop of \<^verbatim>\<open>attemptFailover\<close> over the sorted providers: the first success is
  recorded and returned; a failure moves on to the next provider; after the last one
  the loop falls through to \<^verbatim>\<open>throw new Error('All providers failed')\<close>.\<close>

fun failoverLoop ::
  "'w Platform \<Rightarrow> AIRequest \<Rightarrow> rat \<Rightarrow> AIProvider list \<Rightarrow> AIProviderManager \<times> 'w
     \<Rightarrow> (Error + AIResponse) \<times> AIProviderManager \<times> 'w" where
  "failoverLoop P r originalStartTime [] mw = (Inl AllProvidersFailed, fst mw, snd mw)"
| "failoverLoop P r originalStartTime (p # rest) mw =
     (case executeRequest P p r mw of
        (Inr response, m1, w1) \<Rightarrow>
          (let totalLatency = performanceNow P w1 - originalStartTime
           in (Inr response,
               updateProviderMetrics (dateNow P w1) (AIProvider.id p) True
                 (Usage.cost (AIResponse.usage response)) totalLatency m1,
               w1))
      | (Inl e, m1, w1) \<Rightarrow> failoverLoop P r originalStartTime rest (m1, w1))"

text \<open>\<^verbatim>\<open>sort((a, b) => b.performance.successRate - a.performance.successRate)\<close> is a
  stable sort by descending success rate, as \<^const>\<open>sort_key\<close> on the negated rate.\<close>

definition remainingProviders :: "AIProviderManager \<Rightarrow> AIProvider list" where
  "remainingProviders m =
     sort_key (\<lambda>p. - successRate (performance p))
       (filter (\<lambda>p. status p = active) (map snd (providers m)))"

definition attemptFailover ::
  "'w Platform \<Rightarrow> AIRequest \<Rightarrow> rat \<Rightarrow> AIProviderManager \<times> 'w
     \<Rightarrow> (Error + AIResponse) \<times> AIProviderManager \<times> 'w" where
  "attemptFailover P r originalStartTime mw =
     failoverLoop P r originalStartTime (remainingProviders (fst mw)) mw"

definition getCacheKey :: "'w Platform \<Rightarrow> AIRequest \<Rightarrow> string" where
  "getCacheKey P r =
     ''ai-request-'' @ encode P (AIRequest.type r) (take 100 (prompt r))
                         (AIRequest.maxTokens r) (temperature r)"

text \<open>The \<^verbatim>\<open>catch\<close> block of \<^verbatim>\<open>processRequest\<close>, entered with the error thrown
  anywhere in its \<^verbatim>\<open>try\<close> block.\<close>

definition onError ::
  "'w Platform \<Rightarrow> AIRequest \<Rightarrow> rat \<Rightarrow> Error \<Rightarrow> AIProviderManager \<times> 'w
     \<Rightarrow> (Error + AIResponse) \<times> AIProviderManager \<times> 'w" where
  "onError P r startTime e mw =
     (if failoverEnabled (fst mw) then attemptFailover P r startTime mw
      else (Inl e, fst mw, snd mw))"

definition processRequest ::
  "'w Platform \<Rightarrow> AIRequest \<Rightarrow> AIProviderManager \<times> 'w
     \<Rightarrow> (Error + AIResponse) \<times> AIProviderManager \<times> 'w" where
  "processRequest P r mw =
     (let (m, w) = mw;
          startTime = performanceNow P w;
          cacheKey = getCacheKey P r;
          (cachedResponse, c1) = get (dateNow P w) cacheKey (apiCache m);
          m1 = m\<lparr>apiCache := c1\<rparr>
      in case cachedResponse of
           Some response \<Rightarrow> (Inr response, m1, w)
         | None \<Rightarrow>
            (case selectProvider m1 r of
               None \<Rightarrow> onError P r startTime NoAvailableProvider (m1, w)
             | Some selectedProvider \<Rightarrow>
                (case executeRequest P selectedProvider r (m1, w) of
                   (Inl e, m2, w2) \<Rightarrow> onError P r startTime e (m2, w2)
                 | (Inr response, m2, w2) \<Rightarrow>
                    (let latency = performanceNow P w2 - startTime;
                         m3 = updateProviderMetrics (dateNow P w2) (AIProvider.id selectedProvider)
                                True (Usage.cost (AIResponse.usage response)) latency m2;
                         m4 = m3\<lparr>apiCache := set_entry (dateNow P w2) cacheKey response
                                                 (Some (60 * 60 * 1000)) (apiCache m3)\<rparr>
                     in (Inr response, m4, w2)))))"

subsection \<open>The providers of the source\<close>

text \<open>The two providers that \<^verbatim>\<open>initializeProviders\<close> registers when their API keys are
  set, and the manager as its field initialisers leave it before that.\<close>

definition openaiProvider :: AIProvider where
  "openaiProvider =
     \<lparr>id = ''openai'', name = ''OpenAI'', AIProvider.type = openai,
      models =
        [\<lparr>AIModel.id = ''gpt-4-turbo-preview'', AIModel.name = ''GPT-4 Turbo'',
          AIModel.type = text, AIModel.maxTokens = 4096,
          contextWindow = 128000, capabilities = [''reasoning'', ''code'', ''analysis''],
          costTier = premium\<rparr>,
         \<lparr>AIModel.id = ''gpt-3.5-turbo'', AIModel.name = ''GPT-3.5 Turbo'',
          AIModel.type = text, AIModel.maxTokens = 4096,
          contextWindow = 16384, capabilities = [''conversation'', ''summarization''],
          costTier = medium\<rparr>],
      pricing = \<lparr>Pricing.inputTokens = 1 / 100, Pricing.outputTokens = 3 / 100\<rparr>,
      limits = \<lparr>requestsPerMinute = 500, tokensPerMinute = 90000, dailySpend = 10000\<rparr>,
      performance = \<lparr>averageLatency = 2500, successRate = 99 / 100, lastFailure = None\<rparr>,
      status = active\<rparr>"

definition anthropicProvider :: AIProvider where
  "anthropicProvider =
     \<lparr>id = ''anthropic'', name = ''Anthropic'', AIProvider.type = anthropic,
      models =
        [\<lparr>AIModel.id = ''claude-3-sonnet-20240229'', AIModel.name = ''Claude 3 Sonnet'',
          AIModel.type = text, AIModel.maxTokens = 4096, contextWindow = 200000,
          capabilities = [''reasoning'', ''analysis'', ''safety''], costTier = CostTier.high\<rparr>,
         \<lparr>AIModel.id = ''claude-3-haiku-20240307'', AIModel.name = ''Claude 3 Haiku'',
          AIModel.type = text, AIModel.maxTokens = 4096, contextWindow = 200000,
          capabilities = [''speed'', ''efficiency''], costTier = CostTier.low\<rparr>],
      pricing = \<lparr>Pricing.inputTokens = 3 / 1000, Pricing.outputTokens = 15 / 1000\<rparr>,
      limits = \<lparr>requestsPerMinute = 1000, tokensPerMinute = 100000, dailySpend = 5000\<rparr>,
      performance = \<lparr>averageLatency = 3000, successRate = 98 / 100, lastFailure = None\<rparr>,
      status = active\<rparr>"

text \<open>The global \<^verbatim>\<open>apiCache\<close> as the module creates it.\<close>

definition apiCache0 :: "AIResponse ContentCache" where
  "apiCache0 = \<lparr>cache = [], maxSize = 1000, defaultTTL = 5 * 60 * 1000, hits = 0, misses = 0\<rparr>"

definition newManager :: AIProviderManager where
  "newManager =
     \<lparr>providers = [], requestHistory = [],
      loadBalancer = \<lparr>type = adaptive, weights = None\<rparr>,
      failoverEnabled = True, apiCache = apiCache0, invoked = []\<rparr>"

subsection \<open>Notions used in the properties\<close>

text \<open>The estimate that \<^verbatim>\<open>selectByCost\<close> and \<^verbatim>\<open>selectAdaptively\<close> both compute for a
  provider and a request: \<^verbatim>\<open>calculateCost(provider, estimateTokens(request.prompt),
  request.maxTokens || 1000)\<close>, in whole cents.\<close>

definition estimatedCost :: "AIProvider \<Rightarrow> AIRequest \<Rightarrow> int" where
  "estimatedCost p r =
     calculateCost p (estimateTokens (prompt r)) (orDefault (AIRequest.maxTokens r) 1000)"





subsection \<open>A platform and requests for the examples\<close>

text \<open>
  The world is the time in milliseconds, read by both clocks. A call of a vendor takes
  120 ms; it resolves for the providers that \<open>up\<close> accepts and rejects for the others.
  The encoding of the cache key here is the truncated prompt followed by a rendering of
  the request type.
\<close>

definition scripted :: "(string \<Rightarrow> bool) \<Rightarrow> int Platform" where
  "scripted up =
     \<lparr>dateNow = (\<lambda>w. w), performanceNow = (\<lambda>w. of_int w),
      client = (\<lambda>p mdl r w.
         if up (AIProvider.id p)
         then (Inr \<lparr>result = ''ok'',
                    usage = Some \<lparr>prompt_tokens = Some 2, completion_tokens = Some 10,
                       total_tokens = Some 12, input_tokens = None, output_tokens = None\<rparr>\<rparr>,
               w + 120)
         else (Inl ''503'', w + 120)),
      encode = (\<lambda>t pr mt tp.
         pr @ (case t of text_generation \<Rightarrow> ''/text'' | image_generation \<Rightarrow> ''/image''
                | RequestType.embedding \<Rightarrow> ''/embedding'' | analysis \<Rightarrow> ''/analysis'')),
      estimateQuality = (\<lambda>txt r. 50)\<rparr>"

definition hello :: AIRequest where
  "hello = \<lparr>AIRequest.type = text_generation, prompt = ''Hello'', maxTokens = None,
     temperature = None, AIRequest.model = None, priority = None, budget = None,
     requirements = None\<rparr>"

definition bothProviders :: AIProviderManager where
  "bothProviders = registerProvider anthropicProvider (registerProvider openaiProvider newManager)"

text \<open>Platforms on which no vendor answers, every vendor answers, and only Anthropic
  answers.\<close>

definition failingPlatform :: "int Platform" where
  "failingPlatform = scripted (\<lambda>pid. False)"

definition workingPlatform :: "int Platform" where
  "workingPlatform = scripted (\<lambda>pid. True)"

definition anthropicOnly :: "int Platform" where
  "anthropicOnly = scripted (\<lambda>pid. pid = ''anthropic'')"

definition openaiOnlyManager :: AIProviderManager where
  "openaiOnlyManager = registerProvider openaiProvider newManager"

text \<open>A request for more output tokens than any registered model has, the same request
  as \<open>hello\<close> with another priority, and two requests whose prompts agree on their
  first 104 characters only.\<close>

definition oversized :: AIRequest where
  "oversized = hello\<lparr>AIRequest.maxTokens := Some 8000\<rparr>"

definition urgentHello :: AIRequest where
  "urgentHello = hello\<lparr>priority := Some urgent\<rparr>"

definition announcementA :: AIRequest where
  "announcementA = hello\<lparr>prompt :=
     ''Write a product announcement for our new line of reusable steel water bottles, stressing durability and the lifetime warranty''\<rparr>"

definition announcementB :: AIRequest where
  "announcementB = hello\<lparr>prompt :=
     ''Write a product announcement for our new line of reusable steel water bottles, stressing durability and a playful tone''\<rparr>"

text \<open>The manager after a first request, the response of the scripted OpenAI backend,
  and the cache entry that stores it at 120 ms for one hour.\<close>

definition afterHello :: AIProviderManager where
  "afterHello = fst (snd (processRequest workingPlatform hello (bothProviders, 0)))"

definition afterAnnouncementA :: AIProviderManager where
  "afterAnnouncementA
     = fst (snd (processRequest workingPlatform announcementA (bothProviders, 0)))"

definition openaiReply :: AIResponse where
  "openaiReply =
     \<lparr>content = ''ok'', model = ''gpt-4-turbo-preview'', provider = ''openai'',
      AIResponse.usage =
        \<lparr>inputTokens = 2, outputTokens = 10, totalTokens = 12, Usage.cost = 0\<rparr>,
      metrics = \<lparr>Metrics.latency = 120, quality = Some 50, satisfaction = None\<rparr>\<rparr>"

definition storedEntry :: "string \<Rightarrow> AIResponse CacheEntry" where
  "storedEntry k = \<lparr>key = k, val = openaiReply, expiresAt = 3600120, createdAt = 120,
     accessCount = 0, lastAccessed = 120\<rparr>"

text \<open>OpenAI's provider with half the input price and nothing else changed.\<close>

definition cheaperOpenai :: AIProvider where
  "cheaperOpenai
     = openaiProvider\<lparr>pricing := (pricing openaiProvider)\<lparr>Pricing.inputTokens := 5 / 1000\<rparr>\<rparr>"

section \<open>Properties of the circuit breaker\<close>

lemma onSuccess_half_open:
  "state b = HALF_OPEN \<Longrightarrow>
   onSuccess t b = (if successCount b + 1 \<ge> 5 then reset (b\<lparr>successCount := successCount b + 1\<rparr>)
                    else b\<lparr>successCount := successCount b + 1\<rparr>)"
  by (simp add: onSuccess_def Let_def)

lemma onSuccess_reset: "onSuccess t (reset b) = reset b"
  by (simp add: onSuccess_def reset_def)

lemma reset_successCount: "reset (b\<lparr>successCount := n\<rparr>) = reset b"
  by (simp add: reset_def)

lemma execute_success:
  "state b \<noteq> OPEN \<Longrightarrow> operation b w = (Inr v, w') \<Longrightarrow>
   execute clock operation (b, w) = (Inr v, onSuccess (clock w') b, w')"
  by (simp add: execute_def)

lemma executeAll_reset:
  "\<forall>operation \<in> set ops. succeeds operation \<Longrightarrow>
   fst (executeAll clock ops (reset b, w)) = reset b"
proof (induction ops arbitrary: w)
  case Nil
  then show ?case by simp
next
  case (Cons a ops)
  then obtain v w' where a: "a (reset b) w = (Inr v, w')"
    unfolding succeeds_def by fastforce
  have ne: "state (reset b) \<noteq> OPEN" by (simp add: reset_def)
  have "execute clock a (reset b, w) = (Inr v, onSuccess (clock w') (reset b), w')"
    using ne a by (rule execute_success)
  then show ?case using Cons by (simp add: onSuccess_reset)
qed

lemma executeAll_half_open:
  "\<forall>operation \<in> set ops. succeeds operation \<Longrightarrow> state b = HALF_OPEN \<Longrightarrow>
   successCount b < 5 \<Longrightarrow>
   fst (executeAll clock ops (b, w)) =
     (if successCount b + length ops \<ge> 5 then reset b
      else b\<lparr>successCount := successCount b + length ops\<rparr>)"
proof (induction ops arbitrary: b w)
  case Nil
  then show ?case by simp
next
  case (Cons a ops)
  then obtain v w' where a: "a b w = (Inr v, w')"
    unfolding succeeds_def by fastforce
  have ne: "state b \<noteq> OPEN" using Cons.prems by simp
  have ex: "execute clock a (b, w) = (Inr v, onSuccess (clock w') b, w')"
    using ne a by (rule execute_success)
  show ?case
  proof (cases "successCount b + 1 \<ge> 5")
    case True
    then have "onSuccess (clock w') b = reset b"
      using Cons.prems by (simp add: onSuccess_half_open reset_successCount)
    then show ?thesis
      using ex Cons.prems True executeAll_reset[of ops clock b w'] by simp
  next
    case False
    let ?b1 = "b\<lparr>successCount := successCount b + 1\<rparr>"
    have "onSuccess (clock w') b = ?b1"
      using Cons.prems False by (simp add: onSuccess_half_open)
    moreover have "state ?b1 = HALF_OPEN" using Cons.prems by simp
    moreover have "successCount ?b1 < 5" using False by simp
    ultimately show ?thesis
      using ex Cons.prems Cons.IH[of ?b1 w'] by (simp add: reset_successCount)
  qed
qed

lemma three_failures_open:
  "fst (executeAll (\<lambda>w. w) [rejecting, rejecting, rejecting] (paymentCircuitBreaker, 0))
     = paymentCircuitBreaker\<lparr>state := OPEN, failureCount := 3, lastFailureTime := 30,
         nextAttemptTime := 60030\<rparr>"
  by (simp add: execute_def onFailure_def open_breaker_def rejecting_def
      paymentCircuitBreaker_def initial_def Let_def)

text \<open>
  C1. While the breaker is \<open>OPEN\<close> and the clock reads strictly less than
  \<open>nextAttemptTime\<close>, \<open>execute\<close> throws the breaker-open error and leaves the
  breaker and the world untouched whatever the operation is, so the operation was not
  invoked. Once the clock has reached \<open>nextAttemptTime\<close>, the call first moves the
  breaker to \<open>HALF_OPEN\<close> with \<open>successCount = 0\<close>, then invokes the operation (which
  sees that breaker) and runs the success or failure hook on it.
\<close>

theorem execute_while_open:
  "state b = OPEN \<Longrightarrow>
   (clock w < nextAttemptTime b \<longrightarrow>
      execute clock operation (b, w)
        = (Inl (BreakerOpen (''Circuit breaker '' @ CircuitBreaker.name b @ '' is OPEN'')), b, w))
   \<and> (nextAttemptTime b \<le> clock w \<longrightarrow>
      (let b1 = b\<lparr>state := HALF_OPEN, successCount := 0\<rparr>;
           (r, w') = operation b1 w
       in execute clock operation (b, w)
            = (case r of Inr v \<Rightarrow> (Inr v, onSuccess (clock w') b1, w')
                       | Inl e \<Rightarrow> (Inl (Rethrown e), onFailure (clock w') b1, w'))))"
  by (auto simp: execute_def Let_def split: prod.splits sum.splits)

text \<open>
  The scenario of the specification: the payment breaker (threshold 3) after three
  failures in a row is \<open>OPEN\<close>; a fourth call at 1000 ms is refused; a call at
  70000 ms, after the recovery timeout, goes through in \<open>HALF_OPEN\<close>.
\<close>

theorem execute_while_open_witness:
  "(let b = fst (executeAll (\<lambda>w. w) [rejecting, rejecting, rejecting] (paymentCircuitBreaker, 0))
    in state b = OPEN \<and> (1000::int) < nextAttemptTime b \<and> nextAttemptTime b \<le> 70000
       \<and> execute (\<lambda>w. w) resolving (b, 1000)
            = (Inl (BreakerOpen ''Circuit breaker payment is OPEN''), b, 1000)
       \<and> execute (\<lambda>w. w) resolving (b, 70000)
            = (Inr (), b\<lparr>state := HALF_OPEN, successCount := 1\<rparr>, 70010))"
  using execute_while_open [of "paymentCircuitBreaker\<lparr>state := OPEN, failureCount := 3,
      lastFailureTime := 30, nextAttemptTime := 60030\<rparr>" "\<lambda>w. w" 1000 resolving]
    execute_while_open [of "paymentCircuitBreaker\<lparr>state := OPEN, failureCount := 3,
      lastFailureTime := 30, nextAttemptTime := 60030\<rparr>" "\<lambda>w. w" 70000 resolving]
  unfolding three_failures_open
  by (simp add: paymentCircuitBreaker_def initial_def resolving_def onSuccess_def Let_def)

text \<open>
  C2. From any \<open>HALF_OPEN\<close> breaker, five calls in a row whose operations succeed leave
  the breaker \<open>CLOSED\<close> with \<open>failureCount\<close>, \<open>successCount\<close>,
  \<open>lastFailureTime\<close> and \<open>nextAttemptTime\<close> all zero; and one call whose operation
  fails leaves it \<open>OPEN\<close> with \<open>nextAttemptTime\<close> the time of the failure plus
  \<open>recoveryTimeout\<close>.
\<close>

theorem half_open_recovery:
  assumes "state b = HALF_OPEN"
  shows "(length ops = 5 \<and> (\<forall>operation \<in> set ops. succeeds operation) \<longrightarrow>
           fst (executeAll clock ops (b, w))
             = b\<lparr>state := CLOSED, failureCount := 0, successCount := 0,
                 lastFailureTime := 0, nextAttemptTime := 0\<rparr>)
       \<and> (operation b w = (Inl e, w') \<longrightarrow>
           (let b' = fst (snd (execute clock operation (b, w)))
            in state b' = OPEN \<and> lastFailureTime b' = clock w'
               \<and> nextAttemptTime b' = clock w' + recoveryTimeout (config b)))"
proof (intro conjI impI)
  assume h: "length ops = 5 \<and> (\<forall>operation \<in> set ops. succeeds operation)"
  then obtain a rest where ops: "ops = a # rest" and len: "length rest = 4"
    by (cases ops) auto
  from h ops obtain v w1 where a: "a b w = (Inr v, w1)"
    unfolding succeeds_def by fastforce
  have ne: "state b \<noteq> OPEN" using assms by simp
  have ex: "execute clock a (b, w) = (Inr v, onSuccess (clock w1) b, w1)"
    using ne a by (rule execute_success)
  have rest: "\<forall>operation \<in> set rest. succeeds operation" using h ops by simp
  have "fst (executeAll clock ops (b, w)) = reset b"
  proof (cases "successCount b + 1 \<ge> 5")
    case True
    then have "onSuccess (clock w1) b = reset b"
      using assms by (simp add: onSuccess_half_open reset_successCount)
    then show ?thesis using ex ops executeAll_reset[OF rest] by simp
  next
    case False
    let ?b1 = "b\<lparr>successCount := successCount b + 1\<rparr>"
    have "onSuccess (clock w1) b = ?b1"
      using assms False by (simp add: onSuccess_half_open)
    moreover have "state ?b1 = HALF_OPEN" "successCount ?b1 < 5"
      using assms False by simp_all
    ultimately show ?thesis
      using ex ops len executeAll_half_open[OF rest, of ?b1 clock w1]
      by (simp add: reset_successCount)
  qed
  then show "fst (executeAll clock ops (b, w))
             = b\<lparr>state := CLOSED, failureCount := 0, successCount := 0,
                 lastFailureTime := 0, nextAttemptTime := 0\<rparr>"
    by (simp add: reset_def)
next
  assume "operation b w = (Inl e, w')"
  then show "let b' = fst (snd (execute clock operation (b, w)))
            in state b' = OPEN \<and> lastFailureTime b' = clock w'
               \<and> nextAttemptTime b' = clock w' + recoveryTimeout (config b)"
    using assms by (simp add: execute_def onFailure_def open_breaker_def Let_def)
qed

text \<open>
  The payment breaker opened at 30 ms and probed at 70000 ms is \<open>HALF_OPEN\<close> with one
  success; five more successes close it with every counter at zero, and a failure at
  that point reopens it until 70020 + 60000 ms.
\<close>

theorem half_open_recovery_witness:
  "(let b = paymentCircuitBreaker\<lparr>state := HALF_OPEN, failureCount := 3, lastFailureTime := 30,
              nextAttemptTime := 60030, successCount := 1\<rparr>
    in state b = HALF_OPEN
       \<and> length [resolving, resolving, resolving, resolving, resolving] = 5
       \<and> (\<forall>operation \<in> set [resolving, resolving, resolving, resolving, resolving].
             succeeds operation)
       \<and> fst (executeAll (\<lambda>w. w) [resolving, resolving, resolving, resolving, resolving]
              (b, 70010)) = paymentCircuitBreaker
       \<and> rejecting b 70010 = (Inl ''timeout'', 70020)
       \<and> state (fst (snd (execute (\<lambda>w. w) rejecting (b, 70010)))) = OPEN
       \<and> nextAttemptTime (fst (snd (execute (\<lambda>w. w) rejecting (b, 70010)))) = 130020)"
  using half_open_recovery [of "paymentCircuitBreaker\<lparr>state := HALF_OPEN, failureCount := 3,
      lastFailureTime := 30, nextAttemptTime := 60030, successCount := 1\<rparr>"
      "[resolving, resolving, resolving, resolving, resolving]" "\<lambda>w. w" 70010
      rejecting "''timeout''" 70020]
  by (simp add: succeeds_def resolving_def rejecting_def paymentCircuitBreaker_def
      initial_def Let_def)

section \<open>Properties of the provider manager\<close>

subsection \<open>Evaluation\<close>

lemmas eval_defs =
  processRequest_def get_def set_entry_def evictLRU_def getCacheKey_def onError_def
  attemptFailover_def remainingProviders_def executeRequest_def selectModel_def
  selectProvider_def availableProviders_def selectAdaptively_def adaptiveScore_def
  selectByCost_def selectByPerformance_def selectRoundRobin_def reduce_def
  hasCapableModel_def capable_def calculateCost_def estimateTokens_def
  updateProviderMetrics_def statusFor_def sliceLast_def
  usageInput_def usageOutput_def usageTotal_def defaultUsage_def
  orDefault_def truthy_def js_div_def round_def
  scripted_def failingPlatform_def workingPlatform_def anthropicOnly_def
  hello_def oversized_def urgentHello_def announcementA_def announcementB_def
  cheaperOpenai_def bothProviders_def openaiOnlyManager_def registerProvider_def
  newManager_def apiCache0_def openaiProvider_def anthropicProvider_def Let_def

lemma floor_rat_numeral [simp]:
  "\<lfloor>(numeral a :: rat) / numeral b\<rfloor> = numeral a div numeral b"
  using floor_divide_of_int_eq[of "numeral a" "numeral b", where ?'a = rat] by simp

lemma ceiling_rat_numeral [simp]:
  "\<lceil>(numeral a :: rat) / numeral b\<rceil> = - ((- numeral a) div numeral b)"
  using floor_divide_of_int_eq[of "- numeral a" "numeral b", where ?'a = rat]
  by (simp add: ceiling_def)

subsection \<open>What \<^verbatim>\<open>reduce\<close> with a strict comparison returns\<close>





subsection \<open>Selection by score\<close>












subsection \<open>Selection by cost\<close>




subsection \<open>The cache in front of the providers\<close>

lemma processRequest_hit:
  assumes "map_of (cache (apiCache m)) (getCacheKey P r) = Some e"
    and "dateNow P w \<le> expiresAt e"
  shows "processRequest P r (m, w)
           = (Inr (val e),
              m\<lparr>apiCache := (apiCache m)\<lparr>cache := AList.update (getCacheKey P r)
                    (e\<lparr>accessCount := accessCount e + 1, lastAccessed := dateNow P w\<rparr>)
                    (cache (apiCache m)),
                  hits := hits (apiCache m) + 1\<rparr>\<rparr>,
              w)"
  using assms by (simp add: processRequest_def get_def Let_def)

lemma set_entry_lookup:
  "map_of (cache (set_entry now k v ttl c)) k
     = Some \<lparr>key = k, val = v,
             expiresAt = now + (case ttl of None \<Rightarrow> defaultTTL c
                                | Some t \<Rightarrow> if t = 0 then defaultTTL c else t),
             createdAt = now, accessCount = 0, lastAccessed = now\<rparr>"
  by (simp add: set_entry_def Let_def update_conv)

lemma direct_success_stores:
  assumes "fst (get (dateNow P w) (getCacheKey P r) (apiCache m)) = None"
    and "selectProvider m r = Some p"
    and "executeRequest P p r (m\<lparr>apiCache := snd (get (dateNow P w) (getCacheKey P r) (apiCache m))\<rparr>, w)
           = (Inr response, m2, w2)"
  shows "\<exists>m4. processRequest P r (m, w) = (Inr response, m4, w2)
           \<and> map_of (cache (apiCache m4)) (getCacheKey P r)
               = Some \<lparr>key = getCacheKey P r, val = response,
                       expiresAt = dateNow P w2 + 3600000, createdAt = dateNow P w2,
                       accessCount = 0, lastAccessed = dateNow P w2\<rparr>"
proof -
  have sel: "selectProvider (m\<lparr>apiCache := c\<rparr>) r = selectProvider m r" for c
    by (simp add: selectProvider_def availableProviders_def selectRoundRobin_def Let_def
        split: StrategyType.splits)
  obtain c1 where g: "get (dateNow P w) (getCacheKey P r) (apiCache m) = (None, c1)"
    using assms(1) by (cases "get (dateNow P w) (getCacheKey P r) (apiCache m)") auto
  have ex: "executeRequest P p r (m\<lparr>apiCache := c1\<rparr>, w) = (Inr response, m2, w2)"
    using assms(3) g by simp
  show ?thesis
    by (simp add: processRequest_def Let_def g sel assms(2) ex set_entry_lookup)
qed

text \<open>
  C5. If a call for \<open>r\<close> returned a response and the cache then holds that response
  under the key of \<open>r\<close>, a call for any request \<open>r'\<close> with the same key, made while
  the clock has not passed the entry's expiry, returns that same response, invokes no
  provider and leaves the outcome history and every provider's performance and status
  as they were.
\<close>

theorem cached_response_served:
  assumes "processRequest P r (m, w) = (Inr response, m1, w1)"
    and "map_of (cache (apiCache m1)) (getCacheKey P r) = Some e"
    and "val e = response"
    and "getCacheKey P r' = getCacheKey P r"
    and "dateNow P w2 \<le> expiresAt e"
  shows "\<exists>m2. processRequest P r' (m1, w2) = (Inr response, m2, w2)
              \<and> invoked m2 = invoked m1
              \<and> requestHistory m2 = requestHistory m1
              \<and> providers m2 = providers m1"
  using assms(2-5) processRequest_hit[of m1 P r' e w2] by simp

text \<open>
  The first call for \<open>hello\<close> is answered by OpenAI at 120 ms and stored until
  3600120 ms. The call for \<open>urgentHello\<close>, another request with the same key, made at
  that very millisecond, gets the stored response; OpenAI's single invocation and the
  history are those of the first call.
\<close>

theorem cached_response_served_witness:
  "processRequest workingPlatform hello (bothProviders, 0) = (Inr openaiReply, afterHello, 120)
   \<and> map_of (cache (apiCache afterHello)) (getCacheKey workingPlatform hello)
        = Some (storedEntry ''ai-request-Hello/text'')
   \<and> val (storedEntry ''ai-request-Hello/text'') = openaiReply
   \<and> getCacheKey workingPlatform urgentHello = getCacheKey workingPlatform hello
   \<and> dateNow workingPlatform 3600120 \<le> expiresAt (storedEntry ''ai-request-Hello/text'')
   \<and> urgentHello \<noteq> hello
   \<and> fst (processRequest workingPlatform urgentHello (afterHello, 3600120)) = Inr openaiReply
   \<and> invoked (fst (snd (processRequest workingPlatform urgentHello (afterHello, 3600120))))
        = [''openai'']
   \<and> requestHistory (fst (snd (processRequest workingPlatform urgentHello (afterHello, 3600120))))
        = requestHistory afterHello"
proof -
  have a: "processRequest workingPlatform hello (bothProviders, 0)
             = (Inr openaiReply, afterHello, 120)"
    by (simp add: afterHello_def openaiReply_def eval_defs)
  have b: "map_of (cache (apiCache afterHello)) (getCacheKey workingPlatform hello)
             = Some (storedEntry ''ai-request-Hello/text'')"
    by (simp add: afterHello_def storedEntry_def openaiReply_def eval_defs)
  have c: "val (storedEntry ''ai-request-Hello/text'') = openaiReply"
    by (simp add: storedEntry_def)
  have d: "getCacheKey workingPlatform urgentHello = getCacheKey workingPlatform hello"
    by (simp add: eval_defs)
  have e: "dateNow workingPlatform 3600120 \<le> expiresAt (storedEntry ''ai-request-Hello/text'')"
    by (simp add: storedEntry_def eval_defs)
  have f: "urgentHello \<noteq> hello"
    by (simp add: eval_defs)
  have g: "invoked afterHello = [''openai'']"
    by (simp add: afterHello_def eval_defs)
  from cached_response_served [OF a b c d e] obtain m2 where
    "processRequest workingPlatform urgentHello (afterHello, 3600120)
       = (Inr openaiReply, m2, 3600120)"
    "invoked m2 = invoked afterHello" "requestHistory m2 = requestHistory afterHello"
    by blast
  then show ?thesis using a b c d e f g by simp
qed

text \<open>
  C10. The cache key is a function of the request's type, \<open>maxTokens\<close>,
  \<open>temperature\<close> and the first 100 characters of its prompt: two requests that agree
  on these have the same key, whatever \<^verbatim>\<open>JSON.stringify\<close> and the base64 encoding do;
  and a live cache entry under the key of the first is what \<^verbatim>\<open>processRequest\<close>
  returns for the second.
\<close>

theorem cache_key_ignores_prompt_tail:
  assumes "AIRequest.type r1 = AIRequest.type r2"
    and "AIRequest.maxTokens r1 = AIRequest.maxTokens r2"
    and "temperature r1 = temperature r2"
    and "take 100 (prompt r1) = take 100 (prompt r2)"
  shows "getCacheKey P r1 = getCacheKey P r2
       \<and> (map_of (cache (apiCache m)) (getCacheKey P r1) = Some e \<and> dateNow P w \<le> expiresAt e
            \<longrightarrow> fst (processRequest P r2 (m, w)) = Inr (val e))"
proof -
  have k: "getCacheKey P r1 = getCacheKey P r2"
    using assms by (simp add: getCacheKey_def)
  show ?thesis
    using k processRequest_hit[of m P r2 e w] by simp
qed

text \<open>
  The prompts of \<open>announcementA\<close> and \<open>announcementB\<close> differ after character 104.
  The response to the first, stored at 120 ms, is what the second gets at 500 ms.
\<close>

theorem cache_key_ignores_prompt_tail_witness:
  "AIRequest.type announcementA = AIRequest.type announcementB
   \<and> AIRequest.maxTokens announcementA = AIRequest.maxTokens announcementB
   \<and> temperature announcementA = temperature announcementB
   \<and> take 100 (prompt announcementA) = take 100 (prompt announcementB)
   \<and> prompt announcementA \<noteq> prompt announcementB
   \<and> map_of (cache (apiCache afterAnnouncementA)) (getCacheKey workingPlatform announcementA)
        = Some (storedEntry (getCacheKey workingPlatform announcementA))
   \<and> dateNow workingPlatform 500
        \<le> expiresAt (storedEntry (getCacheKey workingPlatform announcementA))
   \<and> getCacheKey workingPlatform announcementA = getCacheKey workingPlatform announcementB
   \<and> fst (processRequest workingPlatform announcementB (afterAnnouncementA, 500))
        = Inr openaiReply"
proof -
  have a: "AIRequest.type announcementA = AIRequest.type announcementB"
    and b: "AIRequest.maxTokens announcementA = AIRequest.maxTokens announcementB"
    and c: "temperature announcementA = temperature announcementB"
    and d: "take 100 (prompt announcementA) = take 100 (prompt announcementB)"
    and e: "prompt announcementA \<noteq> prompt announcementB"
    by (simp_all add: eval_defs)
  have f: "map_of (cache (apiCache afterAnnouncementA))
             (getCacheKey workingPlatform announcementA)
             = Some (storedEntry (getCacheKey workingPlatform announcementA))"
    by (simp add: afterAnnouncementA_def storedEntry_def openaiReply_def eval_defs)
  have g: "dateNow workingPlatform 500
             \<le> expiresAt (storedEntry (getCacheKey workingPlatform announcementA))"
    by (simp add: storedEntry_def eval_defs)
  show ?thesis
    using cache_key_ignores_prompt_tail [OF a b c d, of workingPlatform afterAnnouncementA
        "storedEntry (getCacheKey workingPlatform announcementA)" 500] a b c d e f g
    by (simp add: storedEntry_def)
qed

subsection \<open>Failover\<close>












subsection \<open>Where the code departs from its specification\<close>

text \<open>
  C7. Only Anthropic answers. \<^verbatim>\<open>processRequest\<close> for \<open>hello\<close> invokes OpenAI, which
  fails, then in the failover pass OpenAI again, which fails again, then Anthropic,
  which answers. The call completes with Anthropic's response, and the history has
  gained one outcome, Anthropic's success: neither failure of OpenAI is recorded,
  where the claim asks for one record with the success flag off. No caller passes
  \<open>False\<close> to \<^verbatim>\<open>updateProviderMetrics\<close>.
\<close>

theorem failed_attempts_leave_no_outcome:
  "fst (processRequest anthropicOnly hello (bothProviders, 0))
     = Inr (openaiReply\<lparr>model := ''claude-3-sonnet-20240229'', provider := ''anthropic''\<rparr>)
   \<and> invoked (fst (snd (processRequest anthropicOnly hello (bothProviders, 0))))
        = [''openai'', ''openai'', ''anthropic'']
   \<and> requestHistory (fst (snd (processRequest anthropicOnly hello (bothProviders, 0))))
        = [\<lparr>timestamp = 360, providerId = ''anthropic'', success = True, cost = 0,
            latency = 360\<rparr>]"
  by (simp add: openaiReply_def eval_defs)

text \<open>
  C9. No model of the two providers has 8000 output tokens, so there is no candidate for
  \<open>oversized\<close>, and the cache is empty. The error \<^verbatim>\<open>No available AI providers\<close> is
  thrown inside the \<^verbatim>\<open>try\<close> block, whose \<^verbatim>\<open>catch\<close> starts the failover: OpenAI
  is invoked with its fallback model and its response is returned. With no provider
  registered at all the caller gets \<^verbatim>\<open>All providers failed\<close>. In neither case does
  the caller see the error the claim names.
\<close>

theorem no_candidate_goes_to_failover:
  "availableProviders bothProviders oversized = []
   \<and> fst (get 0 (getCacheKey workingPlatform oversized) (apiCache bothProviders)) = None
   \<and> fst (processRequest workingPlatform oversized (bothProviders, 0)) = Inr openaiReply
   \<and> invoked (fst (snd (processRequest workingPlatform oversized (bothProviders, 0))))
        = [''openai'']
   \<and> fst (processRequest workingPlatform hello (newManager, 0)) = Inl AllProvidersFailed"
  by (simp add: openaiReply_def eval_defs)

text \<open>
  C4. An update that records a failure for a provider with no earlier outcome gives the
  success rate 0, and the status \<open>degraded\<close>: the test \<^verbatim>\<open>successRate < 0.8\<close> comes
  first, so the branch \<^verbatim>\<open>successRate < 0.5\<close> that sets \<open>offline\<close> is never taken.
\<close>

theorem update_below_half_is_degraded:
  "map_option (\<lambda>p. (successRate (performance p), status p))
     (map_of (providers (updateProviderMetrics 0 ''openai'' False 0 100 openaiOnlyManager))
        ''openai'')
   = Some (0, degraded)"
  by (simp add: eval_defs)

end
